theory Spec2Isabelle
  imports Main "HOL-Library.Word"
begin

section \<open>JavaScript strings\<close>

text \<open>
  A JavaScript string is a sequence of UTF-16 code units; \<open>length\<close> counts code units,
  as \<open>s.length\<close> does. \<open>js\<close> writes an ASCII literal of the source as such a string.
\<close>

type_synonym jsstring = "16 word list"

definition js :: "string \<Rightarrow> jsstring" where
  "js s = map (\<lambda>c. of_nat (of_char c)) s"

text \<open>
  \<open>String.prototype.trim\<close> removes the ECMAScript WhiteSpace and LineTerminator code
  points from both ends: TAB, LF, VT, FF, CR, SP, NBSP, U+1680, U+2000 to U+200A,
  U+2028, U+2029, U+202F, U+205F, U+3000 and U+FEFF. All of them are single code units.
\<close>

definition isWhiteSpace :: "16 word \<Rightarrow> bool" where
  "isWhiteSpace c \<longleftrightarrow>
     c \<in> {0x0009, 0x000A, 0x000B, 0x000C, 0x000D, 0x0020, 0x00A0, 0x1680,
          0x2028, 0x2029, 0x202F, 0x205F, 0x3000, 0xFEFF}
     \<or> (0x2000 \<le> c \<and> c \<le> 0x200A)"

definition trim :: "jsstring \<Rightarrow> jsstring" where
  "trim s = rev (dropWhile isWhiteSpace (rev (dropWhile isWhiteSpace s)))"

text \<open>
  \<open>!s\<close> for a value of type \<open>string | null | undefined\<close>: true for \<open>null\<close>,
  \<open>undefined\<close> (both \<open>None\<close>) and for the empty string.
\<close>

fun falsy :: "jsstring option \<Rightarrow> bool" where
  "falsy None = True"
| "falsy (Some s) = (s = [])"


section \<open>Data of the client\<close>

text \<open>\<open>interface Question { id: string; text: string; order: number }\<close>\<close>

record Question =
  q_id :: jsstring
  q_text :: jsstring
  q_order :: int

text \<open>
  The value of a property read \<open>obj[key]\<close> on an object whose own properties are
  strings: \<open>undefined\<close>, a string, or a function or object that the object inherits
  from \<open>Object.prototype\<close>.
\<close>

datatype jsval = Undefined | Str jsstring | Inherited

text \<open>
  \<open>interface Answer { questionId; questionText; answerText }\<close>. The screen fills
  \<open>answerText\<close> with the value of \<open>answers[q.id]\<close>.
\<close>

record Answer =
  questionId :: jsstring
  questionText :: jsstring
  answerText :: jsval

text \<open>\<open>interface FormData { id; title; description; questions }\<close> of the answer screen.\<close>

record FormData =
  fd_id :: jsstring
  fd_title :: jsstring
  fd_description :: jsstring
  fd_questions :: "Question list"

text \<open>
  \<open>interface User\<close> of the authentication context, whose \<open>role\<close> is declared as
  \<open>'psychologist' | 'patient' | 'patiente'\<close>.
\<close>

datatype UserRole = role_psychologist | role_patient | role_patiente

record User =
  u_id :: jsstring
  u_username :: jsstring
  u_name :: jsstring
  u_email :: jsstring
  u_role :: UserRole

text \<open>
  The role state of the registration screen,
  \<open>useState<'psychologist' | 'patient'>('patient')\<close>.
\<close>

datatype RegisterRole = psychologist | patient


section \<open>The authentication context\<close>

text \<open>
  The state of \<open>AuthProvider\<close>: the React state \<open>user\<close>, \<open>token\<close>, \<open>isLoading\<close> and
  the contents of \<open>AsyncStorage\<close>, a store of strings under string keys.
\<close>

record AuthState =
  user :: "User option"
  token :: "jsstring option"
  isLoading :: bool
  storage :: "jsstring \<rightharpoonup> jsstring"

definition removeItem :: "jsstring \<Rightarrow> AuthState \<Rightarrow> AuthState" where
  "removeItem k st = st\<lparr>storage := (storage st)(k := None)\<rparr>"

definition setToken :: "jsstring option \<Rightarrow> AuthState \<Rightarrow> AuthState" where
  "setToken t st = st\<lparr>token := t\<rparr>"

definition setUser :: "User option \<Rightarrow> AuthState \<Rightarrow> AuthState" where
  "setUser u st = st\<lparr>user := u\<rparr>"

text \<open>
  \<open>logout\<close>: remove \<open>'token'\<close>, remove \<open>'user'\<close>, \<open>setToken(null)\<close>, \<open>setUser(null)\<close>,
  in this order. The model is the run in which both removals resolve.
\<close>

definition logout :: "AuthState \<Rightarrow> AuthState" where
  "logout st =
     setUser None (setToken None (removeItem (js ''user'') (removeItem (js ''token'') st)))"


section \<open>The form editor\<close>

text \<open>
  \<open>toggleAssign\<close>: the state update
  \<open>prev.includes(pid) ? prev.filter((x) => x !== pid) : [...prev, pid]\<close>.
\<close>

definition toggleAssign :: "jsstring list \<Rightarrow> jsstring \<Rightarrow> jsstring list" where
  "toggleAssign prev pid =
     (if pid \<in> set prev then filter (\<lambda>x. x \<noteq> pid) prev else prev @ [pid])"

text \<open>\<open>updateQuestion\<close>: \<open>questions.map((q) => (q.id === id ? { ...q, text } : q))\<close>.\<close>

definition updateQuestion :: "Question list \<Rightarrow> jsstring \<Rightarrow> jsstring \<Rightarrow> Question list" where
  "updateQuestion questions i t =
     map (\<lambda>q. if q_id q = i then q\<lparr>q_text := t\<rparr> else q) questions"

text \<open>\<open>removeQuestion\<close>: \<open>questions.filter((q) => q.id !== id)\<close>.\<close>

definition removeQuestion :: "Question list \<Rightarrow> jsstring \<Rightarrow> Question list" where
  "removeQuestion questions i = filter (\<lambda>q. q_id q \<noteq> i) questions"

text \<open>The body of the \<open>PUT /api/forms/:id\<close> request of the editor.\<close>

record PutBody =
  put_title :: jsstring
  put_description :: jsstring
  put_questions :: "Question list"
  put_assignedPatientIds :: "jsstring list"

text \<open>
  What \<open>handleSubmit\<close> of the editor does: one of its three alerts followed by
  \<open>return\<close>, or the \<open>PUT\<close> request for the form id with the bearer token of the session.
  The sources hold a second, older copy of the editor with the same three checks, whose
  request has no assigned patient ids; the copy with \<open>toggleAssign\<close> is modelled.
\<close>

datatype EditOutcome =
    AlertTitleMissing
  | AlertNoQuestions
  | AlertEmptyQuestions
  | PutForm jsstring PutBody "jsstring option"

definition handleSubmit_EditForm ::
  "jsstring \<Rightarrow> jsstring option \<Rightarrow> jsstring \<Rightarrow> jsstring \<Rightarrow> Question list \<Rightarrow> jsstring list
     \<Rightarrow> EditOutcome" where
  "handleSubmit_EditForm form_id tok title description questions assignedPatientIds =
     (if trim title = [] then AlertTitleMissing
      else if length questions = 0 then AlertNoQuestions
      else if length (filter (\<lambda>q. trim (q_text q) = []) questions) > 0
        then AlertEmptyQuestions
      else PutForm form_id
             \<lparr>put_title = title, put_description = description,
              put_questions = questions, put_assignedPatientIds = assignedPatientIds\<rparr>
             tok)"


section \<open>The answer screen\<close>

text \<open>
  The state \<open>answers\<close> is a plain object, \<open>{}\<close> at first, and \<open>updateAnswer\<close>
  replaces it by \<open>{ ...answers, [questionId]: text }\<close>. Its own properties are the
  texts typed so far, under the question ids: they are the map of the model. The spread
  and the computed key define own properties, also under the key \<open>__proto__\<close>, so
  the prototype of the object is always \<open>Object.prototype\<close>.
\<close>

definition updateAnswer ::
  "(jsstring \<rightharpoonup> jsstring) \<Rightarrow> jsstring \<Rightarrow> jsstring \<Rightarrow> (jsstring \<rightharpoonup> jsstring)" where
  "updateAnswer answers qid txt = answers(qid \<mapsto> txt)"

text \<open>
  The property names of \<open>Object.prototype\<close>, of ECMAScript and its Annex B. A read
  \<open>answers[key]\<close> finds the own property first; without one, a key of this list gives
  the inherited function (for \<open>__proto__\<close> the prototype object), and any other key
  gives \<open>undefined\<close>.
\<close>

definition objectPrototypeKeys :: "jsstring list" where
  "objectPrototypeKeys =
     map js [''constructor'', ''hasOwnProperty'', ''isPrototypeOf'',
             ''propertyIsEnumerable'', ''toLocaleString'', ''toString'', ''valueOf'',
             ''__proto__'', ''__defineGetter__'', ''__defineSetter__'',
             ''__lookupGetter__'', ''__lookupSetter__'']"

definition getProp :: "(jsstring \<rightharpoonup> jsstring) \<Rightarrow> jsstring \<Rightarrow> jsval" where
  "getProp obj key =
     (case obj key of
        Some s \<Rightarrow> Str s
      | None \<Rightarrow> if key \<in> set objectPrototypeKeys then Inherited else Undefined)"

datatype jserror = TypeError

text \<open>
  The callback of the filter, \<open>!answers[q.id] || !answers[q.id].trim()\<close>. For
  \<open>undefined\<close> and for the empty string the first operand is true. For another
  string the second operand trims it. An inherited function or object is truthy and has
  no \<open>trim\<close>, so the call \<open>answers[q.id].trim()\<close> throws a \<open>TypeError\<close>.
\<close>

definition unanswered :: "(jsstring \<rightharpoonup> jsstring) \<Rightarrow> Question \<Rightarrow> jserror + bool" where
  "unanswered answers q =
     (case getProp answers (q_id q) of
        Undefined \<Rightarrow> Inr True
      | Str a \<Rightarrow> Inr (a = [] \<or> trim a = [])
      | Inherited \<Rightarrow> Inl TypeError)"

text \<open>
  \<open>form.questions.filter(...)\<close> with this callback: the questions are tested in their
  order, and the first call that throws ends the filter.
\<close>

fun filterUnanswered ::
  "(jsstring \<rightharpoonup> jsstring) \<Rightarrow> Question list \<Rightarrow> jserror + Question list" where
  "filterUnanswered answers [] = Inr []"
| "filterUnanswered answers (q # qs) =
     (case unanswered answers q of
        Inl e \<Rightarrow> Inl e
      | Inr b \<Rightarrow>
          (case filterUnanswered answers qs of
             Inl e \<Rightarrow> Inl e
           | Inr rest \<Rightarrow> Inr (if b then q # rest else rest)))"

text \<open>
  \<open>formattedAnswers\<close>: \<open>form.questions.map((q) => ({ questionId: q.id,
  questionText: q.text, answerText: answers[q.id] }))\<close>.
\<close>

definition formattedAnswers :: "FormData \<Rightarrow> (jsstring \<rightharpoonup> jsstring) \<Rightarrow> Answer list" where
  "formattedAnswers form answers =
     map (\<lambda>q. \<lparr>questionId = q_id q, questionText = q_text q,
               answerText = getProp answers (q_id q)\<rparr>)
       (fd_questions form)"

text \<open>
  What \<open>handleSubmit\<close> of the answer screen does: nothing without a form, an exception
  thrown by the filter (no alert and no request: the promise of the handler rejects),
  the alert asking to answer every question, the session-expired alert with a redirect
  to the login screen, nothing when the patient declines the confirmation dialogue, or
  the \<open>POST /api/responses\<close> request with the form id, the answers and the bearer
  token. Both branches of the platform test build the same request.
\<close>

datatype SubmitOutcome =
    NoForm
  | Throws jserror
  | AlertAnswerAll
  | AlertSessionExpired
  | NotConfirmed
  | PostResponse jsstring "Answer list" jsstring

definition handleSubmit_AnswerForm ::
  "jsstring \<Rightarrow> FormData option \<Rightarrow> (jsstring \<rightharpoonup> jsstring) \<Rightarrow> jsstring option \<Rightarrow> bool
     \<Rightarrow> SubmitOutcome" where
  "handleSubmit_AnswerForm form_id form answers tok confirmed =
     (case form of
        None \<Rightarrow> NoForm
      | Some f \<Rightarrow>
          (case filterUnanswered answers (fd_questions f) of
             Inl e \<Rightarrow> Throws e
           | Inr unansweredQuestions \<Rightarrow>
               if length unansweredQuestions > 0 then AlertAnswerAll
               else if falsy tok then AlertSessionExpired
               else if \<not> confirmed then NotConfirmed
               else (case tok of
                       None \<Rightarrow> AlertSessionExpired
                     | Some t \<Rightarrow> PostResponse form_id (formattedAnswers f answers) t)))"


section \<open>The registration screen\<close>

text \<open>
  The arguments of the call \<open>register(username, password, name, email, role)\<close>, which
  are the body of the \<open>POST /api/auth/register\<close> request.
\<close>

record RegisterBody =
  reg_username :: jsstring
  reg_password :: jsstring
  reg_name :: jsstring
  reg_email :: jsstring
  reg_role :: RegisterRole

text \<open>
  What \<open>handleRegister\<close> does before any request: the alert asking to fill in every
  field, the alert for a user name under 3 characters, the alert for a password under
  6 characters, each followed by \<open>return\<close>; otherwise the call of \<open>register\<close>.
\<close>

datatype RegisterOutcome =
    AlertFillAllFields
  | AlertUsernameTooShort
  | AlertPasswordTooShort
  | CallRegister RegisterBody

definition handleRegister ::
  "jsstring \<Rightarrow> jsstring \<Rightarrow> jsstring \<Rightarrow> jsstring \<Rightarrow> RegisterRole \<Rightarrow> RegisterOutcome" where
  "handleRegister username password name email role =
     (if username = [] \<or> password = [] \<or> name = [] \<or> email = [] then AlertFillAllFields
      else if length username < 3 then AlertUsernameTooShort
      else if length password < 6 then AlertPasswordTooShort
      else CallRegister
             \<lparr>reg_username = username, reg_password = password, reg_name = name,
              reg_email = email, reg_role = role\<rparr>)"


section \<open>The repositories of the backend\<close>

text \<open>
  The sources hold the client only: its screens call a backend over HTTP, and no file of
  the backend is among them. The definitions of this section are therefore written
  from the specification (its data model, its component design and its error
  taxonomy), one definition per entity and operation, and each says so.
\<close>

text \<open>Modelled from the spec: the error taxonomy of the backend, which is not in the sources.\<close>

datatype error = ValidationError | AuthError | ForbiddenError | NotFoundError | ConflictError

text \<open>
  Modelled from the spec: the User record of the credential store, which is not in the
  sources; its role is one of psychologist and patient.
\<close>

record UserRec =
  usr_id :: jsstring
  usr_username :: jsstring
  usr_passwordHash :: jsstring
  usr_name :: jsstring
  usr_email :: jsstring
  usr_role :: RegisterRole

text \<open>
  Modelled from the spec: the Form of the form repository, which is not in the sources;
  the assigned patients are kept as the list of ids the editor sends.
\<close>

record Form =
  form_id :: jsstring
  form_title :: jsstring
  form_description :: jsstring
  form_questions :: "Question list"
  ownerPsychologistId :: jsstring
  assignedPatientIds :: "jsstring list"

text \<open>
  Modelled from the spec: the Response of the response repository, which is not in the
  sources; \<open>submittedAt\<close> is a time stamp.
\<close>

record Response =
  resp_id :: jsstring
  resp_formId :: jsstring
  resp_patientId :: jsstring
  resp_formTitle :: jsstring
  resp_answers :: "Answer list"
  resp_submittedAt :: nat

text \<open>Modelled from the spec: the three stores of the backend, which is not in the sources.\<close>

record Repo =
  users :: "UserRec list"
  forms :: "Form list"
  responses :: "Response list"

definition empty_repo :: Repo where
  "empty_repo = \<lparr>users = [], forms = [], responses = []\<rparr>"

text \<open>
  Modelled from the spec: a blank text of the backend's validation, which is not in the
  sources: empty once trimmed, as in the client's screens for forms and answers.
\<close>

definition blank :: "jsstring \<Rightarrow> bool" where
  "blank s \<longleftrightarrow> trim s = []"

text \<open>
  Modelled from the spec: the visibility rule of the form repository, which is not in
  the sources: a form is visible to a patient when its assigned patients are empty or
  contain the patient.
\<close>

definition visible :: "Form \<Rightarrow> jsstring \<Rightarrow> bool" where
  "visible f p \<longleftrightarrow> assignedPatientIds f = [] \<or> p \<in> set (assignedPatientIds f)"

definition findForm :: "Repo \<Rightarrow> jsstring \<Rightarrow> Form option" where
  "findForm st fid = find (\<lambda>f. form_id f = fid) (forms st)"

text \<open>
  Modelled from the spec: \<open>listFormsForPatient\<close> of the form repository, which is not
  in the sources: the forms whose assigned patients are empty or contain the patient.
\<close>

definition listFormsForPatient :: "Repo \<Rightarrow> jsstring \<Rightarrow> Form list" where
  "listFormsForPatient st p = filter (\<lambda>f. visible f p) (forms st)"

text \<open>
  Modelled from the spec: \<open>getForm\<close> of the form repository, which is not in the
  sources: a psychologist fetches only an own form, a patient only a visible one;
  an unknown id is \<open>NotFoundError\<close>, as the error taxonomy has it.
\<close>

definition getForm :: "Repo \<Rightarrow> jsstring \<Rightarrow> jsstring \<Rightarrow> RegisterRole \<Rightarrow> error + Form" where
  "getForm st fid callerId callerRole =
     (case findForm st fid of
        None \<Rightarrow> Inl NotFoundError
      | Some f \<Rightarrow>
          (case callerRole of
             psychologist \<Rightarrow> if ownerPsychologistId f = callerId then Inr f else Inl ForbiddenError
           | patient \<Rightarrow> if visible f callerId then Inr f else Inl ForbiddenError))"

text \<open>The form as the answer screen holds it after \<open>GET /api/forms/:id\<close>.\<close>

definition toFormData :: "Form \<Rightarrow> FormData" where
  "toFormData f =
     \<lparr>fd_id = form_id f, fd_title = form_title f, fd_description = form_description f,
      fd_questions = form_questions f\<rparr>"

text \<open>The patch of \<open>updateForm\<close>; the assigned patients are replaced only if provided.\<close>

record Patch =
  patch_title :: jsstring
  patch_description :: jsstring
  patch_questions :: "Question list"
  patch_assignedPatientIds :: "jsstring list option"

text \<open>
  Modelled from the spec: \<open>updateForm\<close> of the form repository, which is not in the
  sources: \<open>NotFoundError\<close> for a missing id, \<open>ForbiddenError\<close> for a caller who is not
  the owner, \<open>ValidationError\<close> for a blank title, no question or a blank question text;
  otherwise the form is replaced, its assigned patients wholesale if provided.
\<close>

definition updateForm :: "Repo \<Rightarrow> jsstring \<Rightarrow> jsstring \<Rightarrow> Patch \<Rightarrow> error + Form \<times> Repo" where
  "updateForm st fid callerId patch =
     (case findForm st fid of
        None \<Rightarrow> Inl NotFoundError
      | Some f \<Rightarrow>
          if ownerPsychologistId f \<noteq> callerId then Inl ForbiddenError
          else if blank (patch_title patch) \<or> patch_questions patch = []
                  \<or> (\<exists>q\<in>set (patch_questions patch). blank (q_text q))
            then Inl ValidationError
          else
            let f' = f\<lparr>form_title := patch_title patch,
                       form_description := patch_description patch,
                       form_questions := patch_questions patch,
                       assignedPatientIds :=
                         (case patch_assignedPatientIds patch of
                            None \<Rightarrow> assignedPatientIds f | Some a \<Rightarrow> a)\<rparr>
            in Inr (f', st\<lparr>forms := map (\<lambda>g. if form_id g = fid then f' else g) (forms st)\<rparr>))"

text \<open>
  Modelled from the spec: \<open>deleteForm\<close> of the form repository, which is not in the
  sources: only the owner deletes; the responses of the form are retained.
\<close>

definition deleteForm :: "Repo \<Rightarrow> jsstring \<Rightarrow> jsstring \<Rightarrow> error + Repo" where
  "deleteForm st fid callerId =
     (case findForm st fid of
        None \<Rightarrow> Inl NotFoundError
      | Some f \<Rightarrow>
          if ownerPsychologistId f \<noteq> callerId then Inl ForbiddenError
          else Inr (st\<lparr>forms := filter (\<lambda>g. form_id g \<noteq> fid) (forms st)\<rparr>))"

text \<open>
  Modelled from the spec: the answer a submission gives to a question, which is not in
  the sources: the entry of the submitted list with the id of the question. A question
  lacks an answer when there is no entry, or its answer is no text or a blank one.
\<close>

definition answerFor :: "Answer list \<Rightarrow> Question \<Rightarrow> jsval" where
  "answerFor submitted q =
     (case find (\<lambda>a. questionId a = q_id q) submitted of
        None \<Rightarrow> Undefined
      | Some a \<Rightarrow> answerText a)"

definition lacksAnswer :: "Answer list \<Rightarrow> Question \<Rightarrow> bool" where
  "lacksAnswer submitted q \<longleftrightarrow>
     (case answerFor submitted q of Str t \<Rightarrow> blank t | _ \<Rightarrow> True)"

definition hasResponse :: "Repo \<Rightarrow> jsstring \<Rightarrow> jsstring \<Rightarrow> bool" where
  "hasResponse st fid pid \<longleftrightarrow>
     (\<exists>r\<in>set (responses st). resp_formId r = fid \<and> resp_patientId r = pid)"

text \<open>
  Modelled from the spec: the checks of \<open>submitResponse\<close> that come before the
  uniqueness constraint, which are not in the sources: \<open>NotFoundError\<close> for an unknown
  form, \<open>ValidationError\<close> if a question of the form lacks a non-blank answer or the
  caller is not a patient, \<open>ForbiddenError\<close> if the form is not visible to the patient.
\<close>

definition submitChecks ::
  "Repo \<Rightarrow> RegisterRole \<Rightarrow> jsstring \<Rightarrow> jsstring \<Rightarrow> Answer list \<Rightarrow> error + Form" where
  "submitChecks st callerRole fid pid submitted =
     (case findForm st fid of
        None \<Rightarrow> Inl NotFoundError
      | Some f \<Rightarrow>
          if callerRole \<noteq> patient \<or> (\<exists>q\<in>set (form_questions f). lacksAnswer submitted q)
            then Inl ValidationError
          else if \<not> visible f pid then Inl ForbiddenError
          else Inr f)"

text \<open>
  Modelled from the spec: \<open>submitResponse\<close> of the response repository, which is not
  in the sources. After the checks above, the uniqueness constraint on
  (formId, patientId) of the storage layer gives \<open>ConflictError\<close>; otherwise the
  Response is stored with the title the form has at this moment and with the submitted
  answers, each of which carries the question text snapshotted for it. The id and the
  time of the new Response are given by the caller of the model. A failed call returns
  no repository: nothing is persisted.
\<close>

definition submitResponse ::
  "Repo \<Rightarrow> RegisterRole \<Rightarrow> jsstring \<Rightarrow> jsstring \<Rightarrow> Answer list \<Rightarrow> jsstring \<Rightarrow> nat
     \<Rightarrow> error + Response \<times> Repo" where
  "submitResponse st callerRole fid pid submitted rid now =
     (case submitChecks st callerRole fid pid submitted of
        Inl e \<Rightarrow> Inl e
      | Inr f \<Rightarrow>
          if hasResponse st fid pid then Inl ConflictError
          else
            let r = \<lparr>resp_id = rid, resp_formId = fid, resp_patientId = pid,
                     resp_formTitle = form_title f, resp_answers = submitted,
                     resp_submittedAt = now\<rparr>
            in Inr (r, st\<lparr>responses := responses st @ [r]\<rparr>))"

text \<open>
  Modelled from the spec: \<open>listResponsesForForm\<close> of the response repository, which
  is not in the sources: only the owning psychologist; every Response of the form,
  each with the name and email of the submitting patient.
\<close>

definition listResponsesForForm ::
  "Repo \<Rightarrow> jsstring \<Rightarrow> jsstring \<Rightarrow> error + (Response \<times> (jsstring \<times> jsstring) option) list" where
  "listResponsesForForm st fid callerId =
     (case findForm st fid of
        None \<Rightarrow> Inl NotFoundError
      | Some f \<Rightarrow>
          if ownerPsychologistId f \<noteq> callerId then Inl ForbiddenError
          else Inr (map (\<lambda>r. (r, map_option (\<lambda>u. (usr_name u, usr_email u))
                                   (find (\<lambda>u. usr_id u = resp_patientId r) (users st))))
                      (filter (\<lambda>r. resp_formId r = fid) (responses st))))"

text \<open>
  Modelled from the spec: \<open>register\<close> of the session issuer, which is not in the
  sources: \<open>ValidationError\<close> for a user name under 3 characters, a password under 6
  or a blank required field, \<open>ConflictError\<close> for a user name in use; otherwise the
  User is created and returned with a token. The password hash, the token and the id
  of the new User come from the parameters \<open>hash\<close>, \<open>issue\<close> and \<open>uid\<close>.
\<close>

definition register_backend ::
  "(jsstring \<Rightarrow> jsstring) \<Rightarrow> (UserRec \<Rightarrow> jsstring) \<Rightarrow> Repo \<Rightarrow> jsstring \<Rightarrow> RegisterBody
     \<Rightarrow> error + (jsstring \<times> UserRec) \<times> Repo" where
  "register_backend hash issue st uid body =
     (if length (reg_username body) < 3 \<or> length (reg_password body) < 6
         \<or> blank (reg_username body) \<or> blank (reg_password body)
         \<or> blank (reg_name body) \<or> blank (reg_email body)
        then Inl ValidationError
      else if \<exists>u\<in>set (users st). usr_username u = reg_username body then Inl ConflictError
      else
        let u = \<lparr>usr_id = uid, usr_username = reg_username body,
                 usr_passwordHash = hash (reg_password body), usr_name = reg_name body,
                 usr_email = reg_email body, usr_role = reg_role body\<rparr>
        in Inr ((issue u, u), st\<lparr>users := users st @ [u]\<rparr>))"

text \<open>
  The calls that change the repositories, and the repository after a call: the new one
  when the call succeeds, the old one when it fails.
\<close>

datatype Op =
    OpSubmit RegisterRole jsstring jsstring "Answer list" jsstring nat
  | OpUpdate jsstring jsstring Patch
  | OpDelete jsstring jsstring

fun exec :: "Repo \<Rightarrow> Op \<Rightarrow> Repo" where
  "exec st (OpSubmit callerRole fid pid submitted rid now) =
     (case submitResponse st callerRole fid pid submitted rid now of
        Inl e \<Rightarrow> st | Inr (r, st') \<Rightarrow> st')"
| "exec st (OpUpdate fid callerId patch) =
     (case updateForm st fid callerId patch of Inl e \<Rightarrow> st | Inr (f, st') \<Rightarrow> st')"
| "exec st (OpDelete fid callerId) =
     (case deleteForm st fid callerId of Inl e \<Rightarrow> st | Inr st' \<Rightarrow> st')"

fun isDelete :: "Op \<Rightarrow> bool" where
  "isDelete (OpDelete fid callerId) = True"
| "isDelete op = False"

definition run :: "Repo \<Rightarrow> Op list \<Rightarrow> Repo" where
  "run st ops = foldl exec st ops"

text \<open>The Responses stored for a pair of a form and a patient.\<close>

definition responsesOf :: "Repo \<Rightarrow> jsstring \<Rightarrow> jsstring \<Rightarrow> Response list" where
  "responsesOf st fid pid =
     filter (\<lambda>r. resp_formId r = fid \<and> resp_patientId r = pid) (responses st)"

definition atMostOne :: "Repo \<Rightarrow> bool" where
  "atMostOne st \<longleftrightarrow> distinct (map (\<lambda>r. (resp_formId r, resp_patientId r)) (responses st))"


section \<open>Example data\<close>

definition demo_form :: FormData where
  "demo_form =
     \<lparr>fd_id = js ''f1'', fd_title = js ''T'', fd_description = [],
      fd_questions = [\<lparr>q_id = js ''1'', q_text = js ''Q1'', q_order = 0\<rparr>,
                      \<lparr>q_id = js ''2'', q_text = js ''Q2'', q_order = 1\<rparr>]\<rparr>"

text \<open>A form whose only question has the id \<open>constructor\<close>.\<close>

definition proto_form :: FormData where
  "proto_form =
     \<lparr>fd_id = js ''f3'', fd_title = js ''T'', fd_description = [],
      fd_questions = [\<lparr>q_id = js ''constructor'', q_text = js ''Q1'', q_order = 0\<rparr>]\<rparr>"

text \<open>
  A repository with two forms of the psychologist \<open>psy1\<close>: one for every patient and
  one assigned to the patient \<open>p1\<close>.
\<close>

definition open_form :: Form where
  "open_form =
     \<lparr>form_id = js ''f1'', form_title = js ''T'', form_description = [],
      form_questions = fd_questions demo_form, ownerPsychologistId = js ''psy1'',
      assignedPatientIds = []\<rparr>"

definition assigned_form :: Form where
  "assigned_form =
     \<lparr>form_id = js ''f2'', form_title = js ''U'', form_description = [],
      form_questions = fd_questions demo_form, ownerPsychologistId = js ''psy1'',
      assignedPatientIds = [js ''p1'']\<rparr>"

definition demo_repo :: Repo where
  "demo_repo = \<lparr>users = [], forms = [open_form, assigned_form], responses = []\<rparr>"

text \<open>
  The answers of a patient to both questions, an edit of a form, and a repository with
  one user.
\<close>

definition demo_answers :: "jsstring \<rightharpoonup> jsstring" where
  "demo_answers = [js ''1'' \<mapsto> js ''A1'', js ''2'' \<mapsto> js ''A2'']"

definition demo_posted :: "Answer list" where
  "demo_posted =
     [\<lparr>questionId = js ''1'', questionText = js ''Q1'', answerText = Str (js ''A1'')\<rparr>,
      \<lparr>questionId = js ''2'', questionText = js ''Q2'', answerText = Str (js ''A2'')\<rparr>]"


definition edit_patch :: Patch where
  "edit_patch =
     \<lparr>patch_title = js ''T2'', patch_description = [],
      patch_questions = [\<lparr>q_id = js ''1'', q_text = js ''Changed'', q_order = 0\<rparr>],
      patch_assignedPatientIds = None\<rparr>"

definition taken_repo :: Repo where
  "taken_repo =
     \<lparr>users = [\<lparr>usr_id = js ''u1'', usr_username = js ''ana'', usr_passwordHash = js ''h'',
                usr_name = js ''Ana'', usr_email = js ''ana@x.org'', usr_role = patient\<rparr>],
      forms = [], responses = []\<rparr>"


section \<open>Properties of the form editor\<close>

lemma trim_eq_Nil_iff: "trim s = [] \<longleftrightarrow> (\<forall>c\<in>set s. isWhiteSpace c)"
proof -
  have "(\<forall>x\<in>set (dropWhile isWhiteSpace s). isWhiteSpace x)
      \<longleftrightarrow> dropWhile isWhiteSpace s = []"
  proof (cases "dropWhile isWhiteSpace s = []")
    case True
    show ?thesis unfolding True by simp
  next
    case False
    then have "\<not> isWhiteSpace (hd (dropWhile isWhiteSpace s))"
      by (rule hd_dropWhile)
    moreover from False have "hd (dropWhile isWhiteSpace s) \<in> set (dropWhile isWhiteSpace s)"
      by simp
    ultimately show ?thesis using False by blast
  qed
  moreover have "trim s = [] \<longleftrightarrow> (\<forall>x\<in>set (dropWhile isWhiteSpace s). isWhiteSpace x)"
    unfolding trim_def rev_is_Nil_conv dropWhile_eq_Nil_conv set_rev ..
  moreover have "dropWhile isWhiteSpace s = [] \<longleftrightarrow> (\<forall>c\<in>set s. isWhiteSpace c)"
    by (rule dropWhile_eq_Nil_conv)
  ultimately show ?thesis
    by blast
qed

text \<open>
  C8: \<open>toggleAssign\<close> flips the membership of the given patient id and of no other:
  the id is in the result exactly when it was not in the list, every other id is in the
  result exactly when it was in the list, and toggling the same id twice gives a list
  with the elements of the first one.
\<close>

theorem toggleAssign_flips_membership:
  "(p \<in> set (toggleAssign s p) \<longleftrightarrow> p \<notin> set s)
   \<and> (\<forall>x. x \<noteq> p \<longrightarrow> (x \<in> set (toggleAssign s p) \<longleftrightarrow> x \<in> set s))
   \<and> set (toggleAssign (toggleAssign s p) p) = set s"
  by (auto simp: toggleAssign_def)

theorem toggleAssign_flips_membership_witness:
  "js ''p2'' \<noteq> js ''p1''
   \<and> js ''p1'' \<notin> set (toggleAssign [js ''p1'', js ''p2''] (js ''p1''))
   \<and> js ''p2'' \<in> set (toggleAssign [js ''p1'', js ''p2''] (js ''p1''))
   \<and> toggleAssign [js ''p1'', js ''p2''] (js ''p1'') = [js ''p2'']
   \<and> toggleAssign (toggleAssign [js ''p1'', js ''p2''] (js ''p1'')) (js ''p1'')
       = [js ''p2'', js ''p1'']"
  using toggleAssign_flips_membership [of "js ''p1''" "[js ''p1'', js ''p2'']"]
  by (simp add: toggleAssign_def js_def)

text \<open>
  C9: \<open>updateQuestion\<close> keeps the length of the list, the id and the order of every
  question and the position of every question; a question with another id is
  unchanged, a question with the given id changes in its text only, and without a
  question of the given id the list is the same.
\<close>

theorem updateQuestion_frame:
  "length (updateQuestion qs i t) = length qs
   \<and> map q_id (updateQuestion qs i t) = map q_id qs
   \<and> map q_order (updateQuestion qs i t) = map q_order qs
   \<and> (\<forall>n<length qs. q_id (qs ! n) \<noteq> i \<longrightarrow> updateQuestion qs i t ! n = qs ! n)
   \<and> (\<forall>n<length qs. q_id (qs ! n) = i \<longrightarrow> updateQuestion qs i t ! n = (qs ! n)\<lparr>q_text := t\<rparr>)
   \<and> ((\<forall>q\<in>set qs. q_id q \<noteq> i) \<longrightarrow> updateQuestion qs i t = qs)"
proof -
  have "(\<forall>q\<in>set qs. q_id q \<noteq> i) \<longrightarrow> updateQuestion qs i t = qs"
    by (induction qs) (simp_all add: updateQuestion_def)
  then show ?thesis
    by (simp add: updateQuestion_def)
qed

theorem updateQuestion_frame_witness:
  "(1::nat) < length (fd_questions demo_form)
   \<and> q_id (fd_questions demo_form ! 0) \<noteq> js ''2''
   \<and> q_id (fd_questions demo_form ! 1) = js ''2''
   \<and> updateQuestion (fd_questions demo_form) (js ''2'') (js ''New'') ! 0
       = fd_questions demo_form ! 0
   \<and> updateQuestion (fd_questions demo_form) (js ''2'') (js ''New'') ! 1
       = \<lparr>q_id = js ''2'', q_text = js ''New'', q_order = 1\<rparr>
   \<and> js ''3'' \<notin> set (map q_id (fd_questions demo_form))
   \<and> updateQuestion (fd_questions demo_form) (js ''3'') (js ''New'') = fd_questions demo_form"
proof -
  have h: "\<forall>q\<in>set (fd_questions demo_form). q_id q \<noteq> js ''3''"
    by (simp add: demo_form_def js_def)
  have n: "(0::nat) < length (fd_questions demo_form)"
    "(1::nat) < length (fd_questions demo_form)"
    "q_id (fd_questions demo_form ! 0) \<noteq> js ''2''"
    "q_id (fd_questions demo_form ! 1) = js ''2''"
    by (simp_all add: demo_form_def js_def)
  have r: "(fd_questions demo_form ! 1)\<lparr>q_text := js ''New''\<rparr>
       = \<lparr>q_id = js ''2'', q_text = js ''New'', q_order = 1\<rparr>"
    by (simp add: demo_form_def js_def)
  note a = updateQuestion_frame [of "fd_questions demo_form" "js ''3''" "js ''New''"]
  note b = updateQuestion_frame [of "fd_questions demo_form" "js ''2''" "js ''New''"]
  from a h have "updateQuestion (fd_questions demo_form) (js ''3'') (js ''New'')
      = fd_questions demo_form"
    by blast
  moreover from b n have "updateQuestion (fd_questions demo_form) (js ''2'') (js ''New'') ! 0
       = fd_questions demo_form ! 0"
    by blast
  moreover from b n have "updateQuestion (fd_questions demo_form) (js ''2'') (js ''New'') ! 1
       = (fd_questions demo_form ! 1)\<lparr>q_text := js ''New''\<rparr>"
    by blast
  moreover have "js ''3'' \<notin> set (map q_id (fd_questions demo_form))"
    by (simp add: demo_form_def js_def)
  ultimately show ?thesis
    using n r by simp
qed

text \<open>
  C5: the editor sends the update only when the invariant of a form holds. With a title
  that is blank once trimmed, with no question, or with a question whose text is blank
  once trimmed, \<open>handleSubmit\<close> ends in one of its three alerts and no request is made;
  otherwise it makes the \<open>PUT\<close> request with the title, the description, the
  questions and the assigned patient ids as given.
\<close>

theorem handleSubmit_EditForm_gate:
  "(trim title = [] \<or> qs = [] \<or> (\<exists>q\<in>set qs. trim (q_text q) = [])
      \<longrightarrow> handleSubmit_EditForm fid tok title d qs a
            \<in> {AlertTitleMissing, AlertNoQuestions, AlertEmptyQuestions})
   \<and> (\<not> (trim title = [] \<or> qs = [] \<or> (\<exists>q\<in>set qs. trim (q_text q) = []))
      \<longrightarrow> handleSubmit_EditForm fid tok title d qs a
            = PutForm fid \<lparr>put_title = title, put_description = d, put_questions = qs,
                          put_assignedPatientIds = a\<rparr> tok)"
  by (auto simp: handleSubmit_EditForm_def filter_empty_conv)

theorem handleSubmit_EditForm_gate_witness:
  "trim (js ''  '') = []
   \<and> handleSubmit_EditForm (js ''f1'') (Some (js ''tok'')) (js ''  '') [] (fd_questions demo_form)
        [js ''p1''] \<in> {AlertTitleMissing, AlertNoQuestions, AlertEmptyQuestions}
   \<and> \<not> (trim (js ''Mood'') = [] \<or> fd_questions demo_form = []
         \<or> (\<exists>q\<in>set (fd_questions demo_form). trim (q_text q) = []))
   \<and> handleSubmit_EditForm (js ''f1'') (Some (js ''tok'')) (js ''Mood'') [] (fd_questions demo_form)
        [js ''p1'']
       = PutForm (js ''f1'')
           \<lparr>put_title = js ''Mood'', put_description = [],
            put_questions = fd_questions demo_form, put_assignedPatientIds = [js ''p1'']\<rparr>
           (Some (js ''tok''))"
proof -
  have h1: "trim (js ''  '') = []"
    by (simp add: trim_def js_def isWhiteSpace_def)
  have h2: "\<not> (trim (js ''Mood'') = [] \<or> fd_questions demo_form = []
         \<or> (\<exists>q\<in>set (fd_questions demo_form). trim (q_text q) = []))"
    by (simp add: trim_def js_def isWhiteSpace_def demo_form_def)
  from h1 h2
    handleSubmit_EditForm_gate [of "js ''  ''" "fd_questions demo_form" "js ''f1''"
      "Some (js ''tok'')" "[]" "[js ''p1'']"]
    handleSubmit_EditForm_gate [of "js ''Mood''" "fd_questions demo_form" "js ''f1''"
      "Some (js ''tok'')" "[]" "[js ''p1'']"]
  show ?thesis
    by blast
qed


section \<open>Properties of the session\<close>

text \<open>
  C10: after \<open>logout\<close> the token and the user of the session are \<open>null\<close> and the
  stored entries \<open>'token'\<close> and \<open>'user'\<close> are gone, whatever the session was; a
  second \<open>logout\<close> changes nothing.
\<close>

theorem logout_clears_session:
  "token (logout st) = None \<and> user (logout st) = None
   \<and> storage (logout st) (js ''token'') = None
   \<and> storage (logout st) (js ''user'') = None
   \<and> logout (logout st) = logout st"
  by (simp add: logout_def setUser_def setToken_def removeItem_def)

text \<open>
  C6: the role of a User is psychologist or patient. The \<open>User\<close> interface of the
  authentication context admits a third value, \<open>'patiente'\<close>: the User below is
  well-typed and its role is neither of the two.
\<close>

theorem user_role_third_value:
  "u_role \<lparr>u_id = js ''u1'', u_username = js ''ana'', u_name = js ''Ana'',
           u_email = js ''ana@x.org'', u_role = role_patiente\<rparr>
     \<notin> {role_psychologist, role_patient}"
  by simp


section \<open>Properties of the answer screen\<close>

lemma filterUnanswered_own:
  assumes "\<forall>q\<in>set qs. answers (q_id q) = None \<longrightarrow> q_id q \<notin> set objectPrototypeKeys"
  shows "filterUnanswered answers qs =
     Inr (filter (\<lambda>q. case answers (q_id q) of None \<Rightarrow> True | Some a \<Rightarrow> trim a = []) qs)"
  using assms
proof (induction qs)
  case Nil
  then show ?case by simp
next
  case (Cons q qs)
  then have rest: "filterUnanswered answers qs =
     Inr (filter (\<lambda>q. case answers (q_id q) of None \<Rightarrow> True | Some a \<Rightarrow> trim a = []) qs)"
    by simp
  from Cons.prems have "answers (q_id q) = None \<longrightarrow> q_id q \<notin> set objectPrototypeKeys"
    by simp
  then have "unanswered answers q =
     Inr (case answers (q_id q) of None \<Rightarrow> True | Some a \<Rightarrow> trim a = [])"
    by (cases "answers (q_id q)") (auto simp: unanswered_def getProp_def trim_def)
  with rest show ?case by simp
qed

lemma filterUnanswered_complete:
  assumes "\<forall>q\<in>set qs. \<exists>a. answers (q_id q) = Some a \<and> trim a \<noteq> []"
  shows "filterUnanswered answers qs = Inr []"
proof -
  from assms have "\<forall>q\<in>set qs. answers (q_id q) = None \<longrightarrow> q_id q \<notin> set objectPrototypeKeys"
    by auto
  then have "filterUnanswered answers qs =
     Inr (filter (\<lambda>q. case answers (q_id q) of None \<Rightarrow> True | Some a \<Rightarrow> trim a = []) qs)"
    by (rule filterUnanswered_own)
  moreover from assms
  have "filter (\<lambda>q. case answers (q_id q) of None \<Rightarrow> True | Some a \<Rightarrow> trim a = []) qs = []"
    by (auto simp: filter_empty_conv)
  ultimately show ?thesis by simp
qed

text \<open>
  When no unanswered question has an id that names a property of \<open>Object.prototype\<close>,
  the screen does what its comment says: with a question that has no answer or a blank
  one it ends in the alert, and with a non-blank answer to every question, a token and
  the confirmation it makes the request.
\<close>

lemma answer_gate_without_inherited_keys:
  assumes "\<forall>q\<in>set (fd_questions f). answers (q_id q) = None \<longrightarrow> q_id q \<notin> set objectPrototypeKeys"
  shows "(\<exists>q\<in>set (fd_questions f). case answers (q_id q) of None \<Rightarrow> True | Some a \<Rightarrow> trim a = [])
      \<Longrightarrow> handleSubmit_AnswerForm fid (Some f) answers tok confirmed = AlertAnswerAll"
    and "\<forall>q\<in>set (fd_questions f). \<exists>a. answers (q_id q) = Some a \<and> trim a \<noteq> [] \<Longrightarrow> t \<noteq> []
      \<Longrightarrow> handleSubmit_AnswerForm fid (Some f) answers (Some t) True
            = PostResponse fid (formattedAnswers f answers) t"
proof -
  note fu = filterUnanswered_own [OF assms]
  show "handleSubmit_AnswerForm fid (Some f) answers tok confirmed = AlertAnswerAll"
    if "\<exists>q\<in>set (fd_questions f). case answers (q_id q) of None \<Rightarrow> True | Some a \<Rightarrow> trim a = []"
  proof -
    from that
    have "filter (\<lambda>q. case answers (q_id q) of None \<Rightarrow> True | Some a \<Rightarrow> trim a = [])
        (fd_questions f) \<noteq> []"
      by (simp add: filter_empty_conv)
    then show ?thesis
      by (simp add: handleSubmit_AnswerForm_def fu)
  qed
  show "handleSubmit_AnswerForm fid (Some f) answers (Some t) True
            = PostResponse fid (formattedAnswers f answers) t"
    if "\<forall>q\<in>set (fd_questions f). \<exists>a. answers (q_id q) = Some a \<and> trim a \<noteq> []" and "t \<noteq> []"
    using that by (simp add: handleSubmit_AnswerForm_def filterUnanswered_complete)
qed

text \<open>
  C2: with a question that has no answer, the submission fails with the validation
  alert. The form below has one question, with the id \<open>constructor\<close>, and the
  patient has answered nothing: the object \<open>answers\<close> inherits a function under that
  key, the filter throws a \<open>TypeError\<close>, and \<open>handleSubmit\<close> ends without the alert
  (and without a request).
\<close>

theorem handleSubmit_AnswerForm_inherited_key:
  "Map.empty (js ''constructor'') = (None :: jsstring option)
   \<and> handleSubmit_AnswerForm (js ''f3'') (Some proto_form) Map.empty (Some (js ''tok'')) True
       = Throws TypeError
   \<and> handleSubmit_AnswerForm (js ''f3'') (Some proto_form) Map.empty (Some (js ''tok'')) True
       \<noteq> AlertAnswerAll"
  by (simp add: handleSubmit_AnswerForm_def proto_form_def unanswered_def getProp_def
        objectPrototypeKeys_def js_def)


section \<open>Properties of the repositories\<close>

lemma responses_exec: "\<exists>ext. responses (exec st op) = responses st @ ext"
proof (cases op)
  case (OpSubmit callerRole fid pid submitted rid now)
  then show ?thesis
    by (auto simp: submitResponse_def Let_def split: sum.splits if_splits)
next
  case (OpUpdate fid callerId patch)
  then show ?thesis
    by (auto simp: updateForm_def Let_def split: sum.splits option.splits if_splits)
next
  case (OpDelete fid callerId)
  then show ?thesis
    by (auto simp: deleteForm_def split: sum.splits option.splits if_splits)
qed

lemma responses_run: "\<exists>ext. responses (run st ops) = responses st @ ext"
proof (induction ops arbitrary: st)
  case Nil
  then show ?case by (simp add: run_def)
next
  case (Cons op ops)
  obtain e1 where e1: "responses (exec st op) = responses st @ e1"
    using responses_exec by blast
  obtain e2 where e2: "responses (run (exec st op) ops) = responses (exec st op) @ e2"
    using Cons.IH by blast
  have "run st (op # ops) = run (exec st op) ops"
    by (simp add: run_def)
  with e1 e2 show ?case by simp
qed

lemma hasResponse_key:
  "hasResponse st fid pid \<longleftrightarrow>
     (fid, pid) \<in> set (map (\<lambda>r. (resp_formId r, resp_patientId r)) (responses st))"
  by (auto simp: hasResponse_def)

lemma atMostOne_exec: "atMostOne st \<Longrightarrow> atMostOne (exec st op)"
proof (cases op)
  case (OpSubmit callerRole fid pid submitted rid now)
  assume "atMostOne st"
  with OpSubmit show ?thesis
    by (auto simp: submitResponse_def atMostOne_def hasResponse_def Let_def
             split: sum.splits if_splits)
next
  case (OpUpdate fid callerId patch)
  assume "atMostOne st"
  with OpUpdate show ?thesis
    by (auto simp: updateForm_def atMostOne_def Let_def split: sum.splits option.splits if_splits)
next
  case (OpDelete fid callerId)
  assume "atMostOne st"
  with OpDelete show ?thesis
    by (auto simp: deleteForm_def atMostOne_def split: sum.splits option.splits if_splits)
qed

lemma atMostOne_run: "atMostOne st \<Longrightarrow> atMostOne (run st ops)"
  by (induction ops arbitrary: st) (simp_all add: run_def atMostOne_exec)

lemma atMostOne_empty: "atMostOne empty_repo"
  by (simp add: atMostOne_def empty_repo_def)


lemma distinct_key_filter_single:
  "distinct (map k xs) \<Longrightarrow> r \<in> set xs \<Longrightarrow> filter (\<lambda>x. k x = k r) xs = [r]"
proof (induction xs)
  case Nil
  then show ?case by simp
next
  case (Cons x xs)
  show ?case
  proof (cases "x = r")
    case True
    with Cons.prems have "\<forall>y\<in>set xs. k y \<noteq> k r"
      by (metis distinct.simps(2) image_eqI list.simps(9) set_map)
    then have "filter (\<lambda>y. k y = k r) xs = []"
      by (simp add: filter_empty_conv)
    with True show ?thesis by simp
  next
    case False
    with Cons.prems have "r \<in> set xs" by simp
    with Cons.prems have "k x \<noteq> k r" by auto
    with Cons \<open>r \<in> set xs\<close> show ?thesis by simp
  qed
qed


lemma responsesOf_single:
  "atMostOne st \<Longrightarrow> r \<in> set (responses st) \<Longrightarrow>
     responsesOf st (resp_formId r) (resp_patientId r) = [r]"
  using distinct_key_filter_single [of "\<lambda>r. (resp_formId r, resp_patientId r)" "responses st" r]
  by (simp add: atMostOne_def responsesOf_def)



lemma submit_success:
  assumes "findForm st fid = Some f" and "visible f pid"
    and "\<forall>q\<in>set (form_questions f). \<not> lacksAnswer submitted q"
    and "\<not> hasResponse st fid pid"
  shows "submitResponse st patient fid pid submitted rid now =
     Inr (\<lparr>resp_id = rid, resp_formId = fid, resp_patientId = pid,
           resp_formTitle = form_title f, resp_answers = submitted,
           resp_submittedAt = now\<rparr>,
          st\<lparr>responses := responses st @
             [\<lparr>resp_id = rid, resp_formId = fid, resp_patientId = pid,
               resp_formTitle = form_title f, resp_answers = submitted,
               resp_submittedAt = now\<rparr>]\<rparr>)"
  using assms by (simp add: submitResponse_def submitChecks_def Let_def)


lemma responsesOf_later:
  assumes "atMostOne st" and "r \<in> set (responses st)"
  shows "responsesOf (run st ops) (resp_formId r) (resp_patientId r) = [r]"
proof -
  have i: "atMostOne (run st ops)"
    using assms(1) by (rule atMostOne_run)
  obtain ext where "responses (run st ops) = responses st @ ext"
    using responses_run by blast
  with assms(2) have "r \<in> set (responses (run st ops))"
    by simp
  with i show ?thesis
    by (rule responsesOf_single)
qed

lemma getForm_patient:
  "getForm st F P patient = Inr f \<Longrightarrow> findForm st F = Some f \<and> visible f P"
  by (auto simp: getForm_def split: option.splits if_splits)

lemma answerFor_formatted:
  "q_id q \<in> q_id ` set qs \<Longrightarrow>
     answerFor (map (\<lambda>q. \<lparr>questionId = q_id q, questionText = q_text q,
                          answerText = getProp answers (q_id q)\<rparr>) qs) q
       = getProp answers (q_id q)"
  by (induction qs) (auto simp: answerFor_def)

lemma lacksAnswer_formatted:
  assumes "\<forall>q\<in>set (fd_questions fd). \<exists>a. answers (q_id q) = Some a \<and> trim a \<noteq> []"
    and "q_id q \<in> q_id ` set (fd_questions fd)"
  shows "\<not> lacksAnswer (formattedAnswers fd answers) q"
proof -
  from assms obtain a where "answers (q_id q) = Some a" and "trim a \<noteq> []"
    by auto
  moreover have "answerFor (formattedAnswers fd answers) q = getProp answers (q_id q)"
    unfolding formattedAnswers_def using assms(2) by (rule answerFor_formatted)
  ultimately show ?thesis
    by (simp add: lacksAnswer_def getProp_def blank_def)
qed

lemma find_map_pres:
  assumes "\<And>x. P (h x) = P x"
  shows "find P (map h xs) = map_option h (find P xs)"
  by (induction xs) (simp_all add: assms)

lemma find_Some_P: "find P xs = Some x \<Longrightarrow> P x"
  by (induction xs) (auto split: if_splits)

lemma owner_exec:
  assumes "\<not> isDelete op"
  shows "map_option ownerPsychologistId (findForm (exec st op) F)
       = map_option ownerPsychologistId (findForm st F)"
proof (cases op)
  case (OpSubmit callerRole fid pid submitted rid now)
  then show ?thesis
    by (auto simp: submitResponse_def findForm_def Let_def split: sum.splits if_splits)
next
  case (OpUpdate fid callerId patch)
  show ?thesis
  proof (cases "updateForm st fid callerId patch")
    case (Inl e)
    with OpUpdate show ?thesis by simp
  next
    case (Inr res)
    then obtain f where f: "findForm st fid = Some f"
      by (auto simp: updateForm_def split: option.splits)
    define f' where "f' = f\<lparr>form_title := patch_title patch,
                       form_description := patch_description patch,
                       form_questions := patch_questions patch,
                       assignedPatientIds :=
                         (case patch_assignedPatientIds patch of
                            None \<Rightarrow> assignedPatientIds f | Some a \<Rightarrow> a)\<rparr>"
    define h where "h = (\<lambda>g. if form_id g = fid then f' else g)"
    from f have fid: "form_id f = fid"
      unfolding findForm_def by (auto dest: find_Some_P)
    have ex: "exec st op = st\<lparr>forms := map h (forms st)\<rparr>"
      using Inr f OpUpdate
      by (auto simp: updateForm_def Let_def f'_def h_def split: if_splits)
    have pres: "(form_id (h x) = F) = (form_id x = F)" for x
      by (simp add: h_def f'_def fid)
    have "findForm (exec st op) F = map_option h (findForm st F)"
      unfolding ex findForm_def by (simp add: find_map_pres [where P = "\<lambda>g. form_id g = F", OF pres])
    moreover have "map_option ownerPsychologistId (map_option h (findForm st F))
        = map_option ownerPsychologistId (findForm st F)"
    proof (cases "findForm st F")
      case None
      then show ?thesis by simp
    next
      case (Some g)
      show ?thesis
      proof (cases "F = fid")
        case True
        with Some f have "g = f" by simp
        then show ?thesis using Some by (simp add: h_def f'_def fid)
      next
        case False
        from Some have "form_id g = F"
          unfolding findForm_def by (auto dest: find_Some_P)
        with False Some show ?thesis by (simp add: h_def)
      qed
    qed
    ultimately show ?thesis by simp
  qed
next
  case (OpDelete fid callerId)
  with assms show ?thesis by simp
qed

lemma owner_run:
  "\<forall>op\<in>set ops. \<not> isDelete op \<Longrightarrow>
     map_option ownerPsychologistId (findForm (run st ops) F)
       = map_option ownerPsychologistId (findForm st F)"
proof (induction ops arbitrary: st)
  case Nil
  then show ?case by (simp add: run_def)
next
  case (Cons op ops)
  have "run st (op # ops) = run (exec st op) ops"
    by (simp add: run_def)
  with Cons show ?case
    by (simp add: owner_exec)
qed

lemma list_join_filter:
  "map fst (filter (\<lambda>x. Q (fst x)) (map (\<lambda>r. (r, j r)) xs)) = filter Q xs"
  by (induction xs) simp_all

lemma listResponses_of_patient:
  assumes "listResponsesForForm st F c = Inr rs"
  shows "map fst (filter (\<lambda>x. resp_patientId (fst x) = P) rs) = responsesOf st F P"
proof -
  define j where "j = (\<lambda>r::Response. map_option (\<lambda>u. (usr_name u, usr_email u))
                          (find (\<lambda>u. usr_id u = resp_patientId r) (users st)))"
  from assms have rs: "rs = map (\<lambda>r. (r, j r)) (filter (\<lambda>r. resp_formId r = F) (responses st))"
    by (auto simp: listResponsesForForm_def j_def split: option.splits if_splits)
  have "map fst (filter (\<lambda>x. resp_patientId (fst x) = P) rs)
      = filter (\<lambda>r. resp_patientId r = P) (filter (\<lambda>r. resp_formId r = F) (responses st))"
    unfolding rs by (rule list_join_filter)
  also have "\<dots> = responsesOf st F P"
    by (simp add: responsesOf_def conj_commute)
  finally show ?thesis .
qed

lemma listResponses_owner:
  assumes "map_option ownerPsychologistId (findForm st F) = Some c"
  shows "\<exists>rs. listResponsesForForm st F c = Inr rs"
  using assms by (auto simp: listResponsesForForm_def split: option.splits)

lemma demo_hyps:
  "atMostOne demo_repo"
  "findForm demo_repo (js ''f1'') = Some open_form"
  "visible open_form (js ''p1'')"
  "\<not> hasResponse demo_repo (js ''f1'') (js ''p1'')"
  "getForm demo_repo (js ''f1'') (js ''p1'') patient = Inr open_form"
  by (simp_all add: atMostOne_def demo_repo_def findForm_def getForm_def open_form_def
        assigned_form_def visible_def hasResponse_def js_def)

lemma demo_complete:
  "\<forall>q\<in>set (fd_questions demo_form). \<exists>a. demo_answers (q_id q) = Some a \<and> trim a \<noteq> []"
  "\<forall>q\<in>set (form_questions open_form). q_id q \<in> q_id ` set (fd_questions demo_form)"
  "\<forall>q\<in>set (form_questions open_form). \<not> lacksAnswer demo_posted q"
  "formattedAnswers demo_form demo_answers = demo_posted"
  by (simp_all add: open_form_def demo_form_def demo_answers_def demo_posted_def
        lacksAnswer_def answerFor_def formattedAnswers_def getProp_def blank_def trim_def
        isWhiteSpace_def js_def)


text \<open>
  C4: \<open>listFormsForPatient\<close> returns exactly the forms whose assigned patients are
  empty or contain the patient: a form with assigned patients is listed exactly for
  them, and a form without assigned patients is listed for every patient.
\<close>

theorem listFormsForPatient_visible:
  "set (listFormsForPatient st p)
     = {f \<in> set (forms st). assignedPatientIds f = [] \<or> p \<in> set (assignedPatientIds f)}
   \<and> (\<forall>f\<in>set (forms st). assignedPatientIds f \<noteq> []
        \<longrightarrow> (f \<in> set (listFormsForPatient st p) \<longleftrightarrow> p \<in> set (assignedPatientIds f)))
   \<and> (\<forall>f\<in>set (forms st). assignedPatientIds f = []
        \<longrightarrow> (\<forall>p'. f \<in> set (listFormsForPatient st p')))"
  by (auto simp: listFormsForPatient_def visible_def)

theorem listFormsForPatient_visible_witness:
  "assigned_form \<in> set (forms demo_repo)
   \<and> assignedPatientIds assigned_form \<noteq> []
   \<and> assigned_form \<in> set (listFormsForPatient demo_repo (js ''p1''))
   \<and> assigned_form \<notin> set (listFormsForPatient demo_repo (js ''p2''))
   \<and> open_form \<in> set (forms demo_repo)
   \<and> assignedPatientIds open_form = []
   \<and> open_form \<in> set (listFormsForPatient demo_repo (js ''p2''))"
proof -
  have a: "assigned_form \<in> set (forms demo_repo)" "open_form \<in> set (forms demo_repo)"
    by (simp_all add: demo_repo_def)
  have b: "assignedPatientIds assigned_form \<noteq> []" "assignedPatientIds open_form = []"
    "js ''p1'' \<in> set (assignedPatientIds assigned_form)"
    "js ''p2'' \<notin> set (assignedPatientIds assigned_form)"
    by (simp_all add: assigned_form_def open_form_def js_def)
  from a b listFormsForPatient_visible [of demo_repo "js ''p1''"]
    listFormsForPatient_visible [of demo_repo "js ''p2''"]
  show ?thesis
    by blast
qed




text \<open>
  C3: for the form on the answer screen and a non-blank answer to every question of it,
  the list that \<open>handleSubmit\<close> posts has one entry per question, in the order of the
  questions, each with the id and the text the question has on the screen at the
  moment of submission and with the answer of the patient to it. The repository stores
  that list as the answers of the Response when the submission is accepted, and after
  any later calls \<open>listResponsesForForm\<close> returns the same Response for the patient,
  with the same list; after calls that edit forms and delete none, it does return for
  the owner of the form.
\<close>

theorem answers_snapshot_roundtrip:
  assumes inv: "atMostOne st"
    and complete: "\<forall>q\<in>set (fd_questions fd). \<exists>a. answers (q_id q) = Some a \<and> trim a \<noteq> []"
    and tok: "tok \<noteq> []"
    and form: "findForm st F = Some f"
    and vis: "visible f P"
    and covers: "\<forall>q\<in>set (form_questions f). q_id q \<in> q_id ` set (fd_questions fd)"
    and first: "\<not> hasResponse st F P"
  shows "handleSubmit_AnswerForm F (Some fd) answers (Some tok) True
        = PostResponse F (formattedAnswers fd answers) tok
      \<and> length (formattedAnswers fd answers) = length (fd_questions fd)
      \<and> (\<forall>n<length (fd_questions fd).
            \<exists>a. answers (q_id (fd_questions fd ! n)) = Some a
              \<and> formattedAnswers fd answers ! n
                  = \<lparr>questionId = q_id (fd_questions fd ! n),
                     questionText = q_text (fd_questions fd ! n), answerText = Str a\<rparr>)
      \<and> (\<exists>r st'.
            submitResponse st patient F P (formattedAnswers fd answers) rid now = Inr (r, st')
            \<and> resp_answers r = formattedAnswers fd answers
            \<and> (\<forall>ops. (\<forall>op\<in>set ops. \<not> isDelete op) \<longrightarrow>
                  (\<exists>rs. listResponsesForForm (run st' ops) F (ownerPsychologistId f) = Inr rs
                      \<and> map fst (filter (\<lambda>x. resp_patientId (fst x) = P) rs) = [r]))
            \<and> (\<forall>ops c rs. listResponsesForForm (run st' ops) F c = Inr rs \<longrightarrow>
                  map fst (filter (\<lambda>x. resp_patientId (fst x) = P) rs) = [r]))"
proof -
  let ?sub = "formattedAnswers fd answers"
  define r where "r = \<lparr>resp_id = rid, resp_formId = F, resp_patientId = P,
       resp_formTitle = form_title f, resp_answers = ?sub, resp_submittedAt = now\<rparr>"
  define st' where "st' = st\<lparr>responses := responses st @ [r]\<rparr>"
  have post: "handleSubmit_AnswerForm F (Some fd) answers (Some tok) True
        = PostResponse F ?sub tok"
    using complete tok
    by (simp add: handleSubmit_AnswerForm_def filterUnanswered_complete)
  have len: "length ?sub = length (fd_questions fd)"
    by (simp add: formattedAnswers_def)
  have elem: "\<exists>a. answers (q_id (fd_questions fd ! n)) = Some a
              \<and> ?sub ! n = \<lparr>questionId = q_id (fd_questions fd ! n),
                     questionText = q_text (fd_questions fd ! n), answerText = Str a\<rparr>"
    if "n < length (fd_questions fd)" for n
  proof -
    from that have "fd_questions fd ! n \<in> set (fd_questions fd)"
      by simp
    with complete obtain a where "answers (q_id (fd_questions fd ! n)) = Some a"
      by blast
    with that show ?thesis
      by (simp add: formattedAnswers_def getProp_def)
  qed
  from complete covers have lacks: "\<forall>q\<in>set (form_questions f). \<not> lacksAnswer ?sub q"
    using lacksAnswer_formatted by blast
  have ok: "submitResponse st patient F P ?sub rid now = Inr (r, st')"
    unfolding r_def st'_def using submit_success [OF form vis lacks first] .
  have ans: "resp_answers r = ?sub"
    by (simp add: r_def)
  have key: "resp_formId r = F" "resp_patientId r = P"
    by (simp_all add: r_def)
  have inv': "atMostOne st'"
    using atMostOne_exec [OF inv, of "OpSubmit patient F P ?sub rid now"] ok by simp
  have mem: "r \<in> set (responses st')"
    by (simp add: st'_def)
  have one: "responsesOf (run st' ops) F P = [r]" for ops
    using responsesOf_later [OF inv' mem, of ops] by (simp add: key)
  have own: "map_option ownerPsychologistId (findForm st' F) = Some (ownerPsychologistId f)"
    using form by (simp add: findForm_def st'_def)
  have any: "map fst (filter (\<lambda>x. resp_patientId (fst x) = P) rs) = [r]"
    if "listResponsesForForm (run st' ops) F c = Inr rs" for ops c rs
    using listResponses_of_patient [OF that, of P] one by simp
  have edits: "\<exists>rs. listResponsesForForm (run st' ops) F (ownerPsychologistId f) = Inr rs
                \<and> map fst (filter (\<lambda>x. resp_patientId (fst x) = P) rs) = [r]"
    if "\<forall>op\<in>set ops. \<not> isDelete op" for ops
  proof -
    have "map_option ownerPsychologistId (findForm (run st' ops) F) = Some (ownerPsychologistId f)"
      using owner_run [OF that] own by simp
    then obtain rs where "listResponsesForForm (run st' ops) F (ownerPsychologistId f) = Inr rs"
      using listResponses_owner by blast
    with any show ?thesis by blast
  qed
  have stored: "\<exists>r st'.
            submitResponse st patient F P ?sub rid now = Inr (r, st')
            \<and> resp_answers r = ?sub
            \<and> (\<forall>ops. (\<forall>op\<in>set ops. \<not> isDelete op) \<longrightarrow>
                  (\<exists>rs. listResponsesForForm (run st' ops) F (ownerPsychologistId f) = Inr rs
                      \<and> map fst (filter (\<lambda>x. resp_patientId (fst x) = P) rs) = [r]))
            \<and> (\<forall>ops c rs. listResponsesForForm (run st' ops) F c = Inr rs \<longrightarrow>
                  map fst (filter (\<lambda>x. resp_patientId (fst x) = P) rs) = [r])"
    using ok ans any edits
    by (intro exI [of _ r] exI [of _ st']) simp
  from post len elem stored show ?thesis
    by (intro conjI allI impI)
qed

theorem answers_snapshot_roundtrip_witness:
  "handleSubmit_AnswerForm (js ''f1'') (Some demo_form) demo_answers (Some (js ''tok'')) True
        = PostResponse (js ''f1'') demo_posted (js ''tok'')
   \<and> (\<exists>r st' rs.
        submitResponse demo_repo patient (js ''f1'') (js ''p1'') demo_posted (js ''r1'') 1
          = Inr (r, st')
        \<and> resp_answers r = demo_posted
        \<and> listResponsesForForm (run st' [OpUpdate (js ''f1'') (js ''psy1'') edit_patch])
            (js ''f1'') (js ''psy1'') = Inr rs
        \<and> map fst (filter (\<lambda>x. resp_patientId (fst x) = js ''p1'') rs) = [r]
        \<and> map (resp_answers \<circ> fst) (filter (\<lambda>x. resp_patientId (fst x) = js ''p1'') rs)
            = [demo_posted])"
proof -
  have t: "js ''tok'' \<noteq> []"
    by (simp add: js_def)
  have o: "ownerPsychologistId open_form = js ''psy1''"
    by (simp add: open_form_def)
  have e: "\<forall>op\<in>set [OpUpdate (js ''f1'') (js ''psy1'') edit_patch]. \<not> isDelete op"
    by simp
  note inst = answers_snapshot_roundtrip [OF demo_hyps(1) demo_complete(1) t demo_hyps(2)
      demo_hyps(3) demo_complete(2) demo_hyps(4), of "js ''r1''" 1,
      unfolded demo_complete(4) o]
  from inst have 1: "handleSubmit_AnswerForm (js ''f1'') (Some demo_form) demo_answers
        (Some (js ''tok'')) True = PostResponse (js ''f1'') demo_posted (js ''tok'')"
    by (rule conjunct1)
  from inst obtain r st' where
    2: "submitResponse demo_repo patient (js ''f1'') (js ''p1'') demo_posted (js ''r1'') 1
          = Inr (r, st')"
    and 3: "resp_answers r = demo_posted"
    and 4: "\<forall>ops. (\<forall>op\<in>set ops. \<not> isDelete op) \<longrightarrow>
            (\<exists>rs. listResponsesForForm (run st' ops) (js ''f1'') (js ''psy1'') = Inr rs
                \<and> map fst (filter (\<lambda>x. resp_patientId (fst x) = js ''p1'') rs) = [r])"
    by (elim exE conjE)
  from 4 [THEN spec, THEN mp, OF e]
  obtain rs where
    5: "listResponsesForForm (run st' [OpUpdate (js ''f1'') (js ''psy1'') edit_patch])
          (js ''f1'') (js ''psy1'') = Inr rs"
    and 6: "map fst (filter (\<lambda>x. resp_patientId (fst x) = js ''p1'') rs) = [r]"
    by (elim exE conjE)
  from 6 have "map resp_answers (map fst (filter (\<lambda>x. resp_patientId (fst x) = js ''p1'') rs))
      = [resp_answers r]"
    by simp
  with 3 have 7: "map (resp_answers \<circ> fst) (filter (\<lambda>x. resp_patientId (fst x) = js ''p1'') rs)
      = [demo_posted]"
    by simp
  from 1 2 3 5 6 7 show ?thesis
    by (intro conjI exI [of _ r] exI [of _ st'] exI [of _ rs])
qed


section \<open>Properties of the registration screen\<close>

text \<open>
  C7: \<open>handleRegister\<close> ends in an alert, and \<open>register\<close> is not called, when the
  user name, the password, the name or the email is empty, when the user name has fewer
  than 3 characters or when the password has fewer than 6; the lengths count UTF-16
  code units, as \<open>length\<close> does. Otherwise \<open>register\<close> is called with the values as
  given. The session issuer then fails with \<open>ValidationError\<close> when a field is
  blank; without a blank field it fails with \<open>ConflictError\<close> when the user name is
  in use, and otherwise creates the User and returns it with a token.
\<close>

theorem handleRegister_gate:
  "((username = [] \<or> password = [] \<or> name = [] \<or> email = []
       \<or> length username < 3 \<or> length password < 6)
      \<longrightarrow> handleRegister username password name email role
            \<in> {AlertFillAllFields, AlertUsernameTooShort, AlertPasswordTooShort})
   \<and> (\<not> (username = [] \<or> password = [] \<or> name = [] \<or> email = []
          \<or> length username < 3 \<or> length password < 6)
      \<longrightarrow> handleRegister username password name email role
            = CallRegister \<lparr>reg_username = username, reg_password = password,
                reg_name = name, reg_email = email, reg_role = role\<rparr>
        \<and> (blank username \<or> blank password \<or> blank name \<or> blank email
            \<longrightarrow> register_backend hash issue st uid
                  \<lparr>reg_username = username, reg_password = password,
                   reg_name = name, reg_email = email, reg_role = role\<rparr>
                = Inl ValidationError)
        \<and> (\<not> blank username \<and> \<not> blank password \<and> \<not> blank name \<and> \<not> blank email
            \<longrightarrow> ((\<exists>u\<in>set (users st). usr_username u = username)
                  \<longrightarrow> register_backend hash issue st uid
                        \<lparr>reg_username = username, reg_password = password,
                         reg_name = name, reg_email = email, reg_role = role\<rparr>
                      = Inl ConflictError)
              \<and> (\<not> (\<exists>u\<in>set (users st). usr_username u = username)
                  \<longrightarrow> (\<exists>u. register_backend hash issue st uid
                        \<lparr>reg_username = username, reg_password = password,
                         reg_name = name, reg_email = email, reg_role = role\<rparr>
                      = Inr ((issue u, u), st\<lparr>users := users st @ [u]\<rparr>)
                    \<and> usr_id u = uid \<and> usr_username u = username \<and> usr_name u = name
                    \<and> usr_email u = email \<and> usr_role u = role))))"
  by (auto simp: handleRegister_def register_backend_def Let_def)

theorem handleRegister_gate_witness:
  "handleRegister (js ''an'') (js ''secret'') (js ''Ana'') (js ''ana@x.org'') patient
      \<in> {AlertFillAllFields, AlertUsernameTooShort, AlertPasswordTooShort}
   \<and> handleRegister (js ''ana'') (js ''secret'') (js ''Ana'') (js ''ana@x.org'') patient
      = CallRegister \<lparr>reg_username = js ''ana'', reg_password = js ''secret'',
          reg_name = js ''Ana'', reg_email = js ''ana@x.org'', reg_role = patient\<rparr>
   \<and> register_backend rev usr_id taken_repo (js ''u2'')
        \<lparr>reg_username = js ''ana'', reg_password = js ''secret'',
         reg_name = js ''Ana'', reg_email = js ''ana@x.org'', reg_role = patient\<rparr>
      = Inl ConflictError
   \<and> register_backend rev usr_id empty_repo (js ''u2'')
        \<lparr>reg_username = js ''ana'', reg_password = js ''secret'',
         reg_name = js '' '', reg_email = js ''ana@x.org'', reg_role = patient\<rparr>
      = Inl ValidationError
   \<and> (\<exists>u. register_backend rev usr_id empty_repo (js ''u2'')
        \<lparr>reg_username = js ''ana'', reg_password = js ''secret'',
         reg_name = js ''Ana'', reg_email = js ''ana@x.org'', reg_role = patient\<rparr>
      = Inr ((js ''u2'', u), empty_repo\<lparr>users := [u]\<rparr>)
      \<and> usr_username u = js ''ana'')"
proof -
  have short: "length (js ''an'') < 3"
    by (simp add: js_def)
  have fine: "\<not> (js ''ana'' = [] \<or> js ''secret'' = [] \<or> js ''Ana'' = [] \<or> js ''ana@x.org'' = []
          \<or> length (js ''ana'') < 3 \<or> length (js ''secret'') < 6)"
    by (simp add: js_def)
  have nb: "\<not> blank (js ''ana'') \<and> \<not> blank (js ''secret'') \<and> \<not> blank (js ''Ana'')
      \<and> \<not> blank (js ''ana@x.org'')"
    by (simp add: blank_def trim_def isWhiteSpace_def js_def)
  have taken: "\<exists>u\<in>set (users taken_repo). usr_username u = js ''ana''"
    by (simp add: taken_repo_def)
  have free: "\<not> (\<exists>u\<in>set (users empty_repo). usr_username u = js ''ana'')"
    "users empty_repo = []"
    by (simp_all add: empty_repo_def)
  note a = handleRegister_gate [where username = "js ''an''" and password = "js ''secret''"
      and name = "js ''Ana''" and email = "js ''ana@x.org''"
      and role = patient and st = empty_repo and hash = rev and issue = usr_id and uid = "js ''u2''"]
  note b = handleRegister_gate [where username = "js ''ana''" and password = "js ''secret''"
      and name = "js ''Ana''" and email = "js ''ana@x.org''"
      and role = patient and st = taken_repo and hash = rev and issue = usr_id and uid = "js ''u2''"]
  note c = handleRegister_gate [where username = "js ''ana''" and password = "js ''secret''"
      and name = "js ''Ana''" and email = "js ''ana@x.org''"
      and role = patient and st = empty_repo and hash = rev and issue = usr_id and uid = "js ''u2''"]
  from a short have 1: "handleRegister (js ''an'') (js ''secret'') (js ''Ana'') (js ''ana@x.org'') patient
      \<in> {AlertFillAllFields, AlertUsernameTooShort, AlertPasswordTooShort}"
    by blast
  from b fine have 2: "handleRegister (js ''ana'') (js ''secret'') (js ''Ana'') (js ''ana@x.org'') patient
      = CallRegister \<lparr>reg_username = js ''ana'', reg_password = js ''secret'',
          reg_name = js ''Ana'', reg_email = js ''ana@x.org'', reg_role = patient\<rparr>"
    by blast
  from b fine nb taken have 3: "register_backend rev usr_id taken_repo (js ''u2'')
        \<lparr>reg_username = js ''ana'', reg_password = js ''secret'',
         reg_name = js ''Ana'', reg_email = js ''ana@x.org'', reg_role = patient\<rparr>
      = Inl ConflictError"
    by blast
  from c fine nb free(1) obtain u where u: "register_backend rev usr_id empty_repo (js ''u2'')
        \<lparr>reg_username = js ''ana'', reg_password = js ''secret'',
         reg_name = js ''Ana'', reg_email = js ''ana@x.org'', reg_role = patient\<rparr>
      = Inr ((usr_id u, u), empty_repo\<lparr>users := users empty_repo @ [u]\<rparr>)"
     "usr_id u = js ''u2''" "usr_username u = js ''ana''"
    by blast
  have fine': "\<not> (js ''ana'' = [] \<or> js ''secret'' = [] \<or> js '' '' = [] \<or> js ''ana@x.org'' = []
          \<or> length (js ''ana'') < 3 \<or> length (js ''secret'') < 6)"
    by (simp add: js_def)
  have bl: "blank (js '' '')"
    by (simp add: blank_def trim_def isWhiteSpace_def js_def)
  note d = handleRegister_gate [where username = "js ''ana''" and password = "js ''secret''"
      and name = "js '' ''" and email = "js ''ana@x.org''"
      and role = patient and st = empty_repo and hash = rev and issue = usr_id and uid = "js ''u2''"]
  from d fine' bl have 4: "register_backend rev usr_id empty_repo (js ''u2'')
        \<lparr>reg_username = js ''ana'', reg_password = js ''secret'',
         reg_name = js '' '', reg_email = js ''ana@x.org'', reg_role = patient\<rparr>
      = Inl ValidationError"
    by blast
  from 1 2 3 4 u free(2) show ?thesis
    by auto
qed

text \<open>
  The screen tests its fields for the empty string only. A name of one space is blank
  and not empty, and with it \<open>register\<close> is called.
\<close>

theorem handleRegister_blank_name_counterexample:
  "js '' '' \<noteq> [] \<and> blank (js '' '')
   \<and> handleRegister (js ''ana'') (js ''secret'') (js '' '') (js ''a@x.org'') patient
       = CallRegister \<lparr>reg_username = js ''ana'', reg_password = js ''secret'',
                       reg_name = js '' '', reg_email = js ''a@x.org'', reg_role = patient\<rparr>"
  by (simp add: handleRegister_def js_def blank_def trim_def isWhiteSpace_def)

end
